theory Spec2Isabelle
  imports Complex_Main "HOL-Library.Multiset"
begin

section \<open>The budget service of the expense tracker\<close>

text \<open>
  A shallow embedding of \<^verbatim>\<open>BudgetService\<close> (backend/src/services/budgetService.ts):
  the two tables it reads and writes, its CRUD operations and the two evaluation loops
  \<^verbatim>\<open>getBudgetAnalysis\<close> and \<^verbatim>\<open>getBudgetAlerts\<close>.
\<close>

subsection \<open>JavaScript numbers\<close>

text \<open>
  A JavaScript number is an IEEE 754 double. A finite one is taken as the real number
  it denotes (zero has no sign here); the three special values are kept, because the
  service divides by the stored amount of a budget without looking at it. A quotient
  or a product is rounded to the nearest double, a tie going to the even significand,
  and is infinite when the rounded value is out of range. A sum or a difference of two
  amounts is taken exactly, without that rounding.
\<close>

datatype number = Num real | Infinity | NegInfinity | NaN

text \<open>The nearest integer, a tie going to the even one.\<close>

definition round_even :: "real \<Rightarrow> int" where
  "round_even y =
     (let f = \<lfloor>y\<rfloor>
      in if y - of_int f < 1 / 2 then f
         else if 1 / 2 < y - of_int f then f + 1
         else if even f then f else f + 1)"

text \<open>
  The spacing of the doubles around a positive real \<open>a\<close>: the power of two \<open>q\<close> with
  \<open>2^52 * q \<le> a < 2^53 * q\<close>, and \<open>2^-1074\<close> below the normal range. The search
  starts at 1, doubling for a large \<open>a\<close> and halving for a small one, 1074 times at
  most.
\<close>

function quantum_up :: "real \<Rightarrow> real \<Rightarrow> real" where
  "quantum_up q a = (if 0 < q \<and> 2 ^ 53 * q \<le> a then quantum_up (2 * q) a else q)"
  by pat_completeness auto
termination
proof (relation "measure (\<lambda>(q, a). nat \<lceil>a / q\<rceil>)")
  show "wf (measure (\<lambda>(q, a). nat \<lceil>a / q\<rceil>))" by simp
next
  fix q a :: real
  assume "0 < q \<and> 2 ^ 53 * q \<le> a"
  then have q: "0 < q" and a: "2 ^ 53 * q \<le> a" by simp_all
  have half: "\<lceil>y / 2\<rceil> < \<lceil>y\<rceil>" if "1 < y" for y :: real
  proof -
    have "2 \<le> \<lceil>y\<rceil>" using that by linarith
    then have "(2 :: real) \<le> of_int \<lceil>y\<rceil>" by linarith
    moreover have "y \<le> of_int \<lceil>y\<rceil>" by (rule le_of_int_ceiling)
    ultimately have "y / 2 \<le> of_int \<lceil>y\<rceil> - 1" by linarith
    then have "y / 2 \<le> of_int (\<lceil>y\<rceil> - 1)" by simp
    then have "\<lceil>y / 2\<rceil> \<le> \<lceil>y\<rceil> - 1" by (simp only: ceiling_le_iff)
    then show ?thesis by simp
  qed
  from q a have "2 ^ 53 \<le> a / q" by (simp add: pos_le_divide_eq)
  then have one: "1 < a / q" by simp
  then have "\<lceil>a / q / 2\<rceil> < \<lceil>a / q\<rceil>" by (rule half)
  moreover have "a / (2 * q) = a / q / 2" by simp
  ultimately have "\<lceil>a / (2 * q)\<rceil> < \<lceil>a / q\<rceil>" by (simp only:)
  moreover have "0 < \<lceil>a / q\<rceil>" using one by linarith
  ultimately have "nat \<lceil>a / (2 * q)\<rceil> < nat \<lceil>a / q\<rceil>" by linarith
  then show "((2 * q, a), (q, a)) \<in> measure (\<lambda>(q, a). nat \<lceil>a / q\<rceil>)"
    by (simp only: in_measure prod.case)
qed

function quantum_down :: "nat \<Rightarrow> real \<Rightarrow> real \<Rightarrow> real" where
  "quantum_down k q a =
     (if 0 < k \<and> a < 2 ^ 52 * q then quantum_down (k - 1) (q / 2) a else q)"
  by pat_completeness auto
termination
  by (relation "measure (\<lambda>(k, q, a). k)") auto

definition quantum :: "real \<Rightarrow> real" where
  "quantum a = (if 2 ^ 53 \<le> a then quantum_up 1 a else quantum_down 1074 1 a)"

text \<open>The double an arithmetic operation returns for the exact result \<open>x\<close>.\<close>

definition double :: "real \<Rightarrow> number" where
  "double x =
     (if x = 0 then Num 0
      else (let q = quantum \<bar>x\<bar>;
                r = of_int (round_even (x / q)) * q
            in if 2 ^ 1024 \<le> \<bar>r\<bar> then (if 0 < x then Infinity else NegInfinity)
               else Num r))"

text \<open>\<^verbatim>\<open>a / b\<close> for two finite operands.\<close>

definition js_divide :: "real \<Rightarrow> real \<Rightarrow> number" where
  "js_divide a b =
     (if b = 0 then (if a = 0 then NaN else if 0 < a then Infinity else NegInfinity)
      else double (a / b))"

text \<open>\<^verbatim>\<open>x * c\<close> and \<^verbatim>\<open>x / c\<close> for a finite right operand \<open>c\<close>.\<close>

fun js_times :: "number \<Rightarrow> real \<Rightarrow> number" where
  "js_times (Num x) c = double (x * c)"
| "js_times Infinity c = (if 0 < c then Infinity else if c < 0 then NegInfinity else NaN)"
| "js_times NegInfinity c = (if 0 < c then NegInfinity else if c < 0 then Infinity else NaN)"
| "js_times NaN c = NaN"

fun js_over :: "number \<Rightarrow> real \<Rightarrow> number" where
  "js_over (Num x) c = js_divide x c"
| "js_over Infinity c = (if 0 \<le> c then Infinity else NegInfinity)"
| "js_over NegInfinity c = (if 0 \<le> c then NegInfinity else Infinity)"
| "js_over NaN c = NaN"

text \<open>\<^verbatim>\<open>x >= c\<close>: every comparison with \<^verbatim>\<open>NaN\<close> is false.\<close>

fun js_ge :: "number \<Rightarrow> real \<Rightarrow> bool" where
  "js_ge (Num x) c = (c \<le> x)"
| "js_ge Infinity c = True"
| "js_ge NegInfinity c = False"
| "js_ge NaN c = False"

text \<open>\<^verbatim>\<open>Math.round\<close>: the nearest integer, a tie going up.\<close>

fun Math_round :: "number \<Rightarrow> number" where
  "Math_round (Num x) = Num (of_int \<lfloor>x + 1 / 2\<rfloor>)"
| "Math_round Infinity = Infinity"
| "Math_round NegInfinity = NegInfinity"
| "Math_round NaN = NaN"

subsection \<open>Numbers as text\<close>

function show_nat :: "nat \<Rightarrow> string" where
  "show_nat n =
     (if n < 10 then [''0123456789'' ! n]
      else show_nat (n div 10) @ [''0123456789'' ! (n mod 10)])"
  by pat_completeness auto
termination
  by (relation "measure (\<lambda>n. n)") auto

definition show_int :: "int \<Rightarrow> string" where
  "show_int k = (if k < 0 then CHR ''-'' # show_nat (nat (- k)) else show_nat (nat k))"

text \<open>
  The text of a number inside a template literal, for the values \<^verbatim>\<open>Math.round\<close>
  returns (exponent notation of very large values is left out).
\<close>

fun ToString :: "number \<Rightarrow> string" where
  "ToString (Num x) = show_int \<lfloor>x\<rfloor>"
| "ToString Infinity = ''Infinity''"
| "ToString NegInfinity = ''-Infinity''"
| "ToString NaN = ''NaN''"

text \<open>
  \<^verbatim>\<open>x.toFixed(2)\<close> for a finite \<open>x\<close> below \<open>10^21\<close> in absolute value: the sign, then
  the nearest multiple of 0.01 of the absolute value (a tie going up), with at least one
  digit before the point.
\<close>

definition toFixed2 :: "real \<Rightarrow> string" where
  "toFixed2 x =
     (let s = (if x < 0 then ''-'' else '''');
          n = nat \<lfloor>\<bar>x\<bar> * 100 + 1 / 2\<rfloor>;
          cents = n mod 100
      in s @ show_nat (n div 100) @ ''.'' @
         [''0123456789'' ! (cents div 10), ''0123456789'' ! (cents mod 10)])"

subsection \<open>The tables\<close>

text \<open>
  A date is the text the caller gave; the queries pass it through the engine's
  \<^verbatim>\<open>date()\<close>. A timestamp \<^verbatim>\<open>YYYY-MM-DD HH:MM:SS\<close>, which only
  \<^verbatim>\<open>datetime('now')\<close> writes, is the number \<open>YYYYMMDDHHMMSS\<close>: the order of the numbers
  is the order of the texts, which is what \<^verbatim>\<open>ORDER BY\<close> compares.
\<close>

type_synonym datetime = nat

datatype period = weekly | monthly | yearly

text \<open>
  A row of \<^verbatim>\<open>budgets\<close>, the table of the implementation guide's migration, whose columns
  are the ones the service's statements name; \<^verbatim>\<open>category\<close> is nullable, \<^verbatim>\<open>isActive\<close>
  is stored as 1 or 0.
\<close>

record Budget =
  id :: nat
  userId :: nat
  name :: string
  amount :: real
  category :: "string option"
  period :: period
  startDate :: string
  endDate :: string
  alertThreshold :: real
  isActive :: bool
  createdAt :: datetime
  updatedAt :: datetime

text \<open>The argument of \<^verbatim>\<open>createBudget\<close>: a budget without \<^verbatim>\<open>id\<close> and \<^verbatim>\<open>userId\<close>
  (the statement does not read its optional timestamps).\<close>

record BudgetData =
  name :: string
  amount :: real
  category :: "string option"
  period :: period
  startDate :: string
  endDate :: string
  alertThreshold :: real
  isActive :: bool

text \<open>The columns of \<^verbatim>\<open>expenses\<close> that the service reads.\<close>

record Expense =
  userId :: nat
  category :: string
  amount :: real
  purchase_date :: string

text \<open>
  The database: the two tables, the largest id the \<^verbatim>\<open>budgets\<close> table has ever given
  out (its entry in \<^verbatim>\<open>sqlite_sequence\<close>), and the two functions of the SQL engine that
  the spend query calls, which are no code of this repository: \<^verbatim>\<open>date()\<close>, as a number
  that grows with the day a text denotes and \<open>None\<close> where the engine gives \<^verbatim>\<open>NULL\<close>,
  and \<^verbatim>\<open>SUM()\<close> over the amounts of at least one row.
\<close>

record database =
  budgets :: "Budget list"
  expenses :: "Expense list"
  sequence :: nat
  sql_date :: "string \<Rightarrow> nat option"
  sql_sum :: "real list \<Rightarrow> real"

text \<open>A rejection: an \<^verbatim>\<open>Error\<close> the service throws, or a \<^verbatim>\<open>TypeError\<close> of the runtime.\<close>

datatype error = Error string | TypeError string

subsection \<open>Results\<close>

datatype status = status_under | status_warning | status_over

datatype alertLevel = level_warning | level_danger | level_exceeded

record BudgetAlert =
  budgetId :: nat
  budgetName :: string
  currentSpent :: real
  budgetAmount :: real
  percentageUsed :: number
  alertLevel :: alertLevel
  message :: string

record BudgetPerformance =
  budgetId :: nat
  name :: string
  budgetAmount :: real
  spent :: real
  remaining :: real
  percentageUsed :: number
  status :: status

record BudgetAnalysis =
  totalBudgets :: nat
  activeBudgets :: nat
  totalBudgetAmount :: real
  totalSpent :: real
  overBudgetCount :: nat
  savings :: real
  budgetPerformance :: "BudgetPerformance list"

subsection \<open>Create, read, update, delete\<close>

text \<open>\<^verbatim>\<open>SELECT * FROM budgets WHERE id = ?\<close>, the first row or \<^verbatim>\<open>undefined\<close>.\<close>

definition getBudgetById :: "database \<Rightarrow> nat \<Rightarrow> Budget option" where
  "getBudgetById db budgetId' = find (\<lambda>b. Budget.id b = budgetId') (budgets db)"

text \<open>
  \<^verbatim>\<open>AUTOINCREMENT\<close>: the id of an inserted row is one more than the largest id that
  is or ever was in the table.
\<close>

definition lastID :: "database \<Rightarrow> nat" where
  "lastID db = Suc (fold max (map Budget.id (budgets db)) (sequence db))"

text \<open>\<^verbatim>\<open>budgetData.category || null\<close>: a missing and an empty text both give \<^verbatim>\<open>null\<close>.\<close>

definition or_null :: "string option \<Rightarrow> string option" where
  "or_null c = (case c of None \<Rightarrow> None | Some s \<Rightarrow> (if s = [] then None else Some s))"

text \<open>
  \<^verbatim>\<open>createBudget\<close> inserts one row; \<open>now\<close> is the value of \<^verbatim>\<open>datetime('now')\<close>. The
  driver calls the callback of \<^verbatim>\<open>run\<close> with the error alone and leaves \<^verbatim>\<open>lastID\<close>
  on the statement object, so the promisified \<^verbatim>\<open>run\<close> resolves with \<^verbatim>\<open>undefined\<close>:
  \<^verbatim>\<open>result\<close> is \<open>None\<close>, reading \<^verbatim>\<open>result.lastID\<close> throws, and the read-back is never
  reached. The result is the promise's outcome (\<open>Inl\<close> a rejection, \<open>Inr\<close> the value)
  and the database afterwards.
\<close>

definition createBudget ::
  "database \<Rightarrow> datetime \<Rightarrow> nat \<Rightarrow> BudgetData \<Rightarrow> (error + Budget option) \<times> database" where
  "createBudget db now userId' budgetData =
     (let row = \<lparr>Budget.id = lastID db,
                 Budget.userId = userId',
                 Budget.name = BudgetData.name budgetData,
                 Budget.amount = BudgetData.amount budgetData,
                 Budget.category = or_null (BudgetData.category budgetData),
                 Budget.period = BudgetData.period budgetData,
                 Budget.startDate = BudgetData.startDate budgetData,
                 Budget.endDate = BudgetData.endDate budgetData,
                 Budget.alertThreshold = BudgetData.alertThreshold budgetData,
                 Budget.isActive = BudgetData.isActive budgetData,
                 Budget.createdAt = now,
                 Budget.updatedAt = now\<rparr>;
          db' = db\<lparr>budgets := budgets db @ [row], sequence := Budget.id row\<rparr>;
          result = (None :: nat option)
      in (case result of
            None \<Rightarrow> Inl (TypeError ''Cannot read properties of undefined (reading 'lastID')'')
          | Some lastID' \<Rightarrow> Inr (getBudgetById db' lastID'),
          db'))"

text \<open>
  \<^verbatim>\<open>SELECT * FROM budgets WHERE userId = ? ORDER BY createdAt DESC\<close>; rows of the same
  second stay in table order.
\<close>

definition getUserBudgets :: "database \<Rightarrow> nat \<Rightarrow> Budget list" where
  "getUserBudgets db userId' =
     sort_key (\<lambda>b. - int (Budget.createdAt b))
       (filter (\<lambda>b. Budget.userId b = userId') (budgets db))"

text \<open>
  An entry of \<^verbatim>\<open>Object.entries(updates)\<close> for \<^verbatim>\<open>updates: Partial<Budget>\<close>: the key
  and a value of the key's type.
\<close>

datatype entry =
    E_id nat
  | E_userId nat
  | E_name string
  | E_amount real
  | E_category string
  | E_period period
  | E_startDate string
  | E_endDate string
  | E_alertThreshold real
  | E_isActive bool
  | E_createdAt datetime
  | E_updatedAt datetime

fun key :: "entry \<Rightarrow> string" where
  "key (E_id v) = ''id''"
| "key (E_userId v) = ''userId''"
| "key (E_name v) = ''name''"
| "key (E_amount v) = ''amount''"
| "key (E_category v) = ''category''"
| "key (E_period v) = ''period''"
| "key (E_startDate v) = ''startDate''"
| "key (E_endDate v) = ''endDate''"
| "key (E_alertThreshold v) = ''alertThreshold''"
| "key (E_isActive v) = ''isActive''"
| "key (E_createdAt v) = ''createdAt''"
| "key (E_updatedAt v) = ''updatedAt''"

definition allowedFields :: "string list" where
  "allowedFields = [''name'', ''amount'', ''category'', ''period'', ''startDate'', ''endDate'',
     ''alertThreshold'', ''isActive'']"

text \<open>One assignment \<^verbatim>\<open>key = ?\<close> of a \<^verbatim>\<open>SET\<close> clause, applied to a row.\<close>

fun assign :: "entry \<Rightarrow> Budget \<Rightarrow> Budget" where
  "assign (E_id v) b = b\<lparr>Budget.id := v\<rparr>"
| "assign (E_userId v) b = b\<lparr>Budget.userId := v\<rparr>"
| "assign (E_name v) b = b\<lparr>Budget.name := v\<rparr>"
| "assign (E_amount v) b = b\<lparr>Budget.amount := v\<rparr>"
| "assign (E_category v) b = b\<lparr>Budget.category := Some v\<rparr>"
| "assign (E_period v) b = b\<lparr>Budget.period := v\<rparr>"
| "assign (E_startDate v) b = b\<lparr>Budget.startDate := v\<rparr>"
| "assign (E_endDate v) b = b\<lparr>Budget.endDate := v\<rparr>"
| "assign (E_alertThreshold v) b = b\<lparr>Budget.alertThreshold := v\<rparr>"
| "assign (E_isActive v) b = b\<lparr>Budget.isActive := v\<rparr>"
| "assign (E_createdAt v) b = b\<lparr>Budget.createdAt := v\<rparr>"
| "assign (E_updatedAt v) b = b\<lparr>Budget.updatedAt := v\<rparr>"

text \<open>
  The loop over the entries: \<^verbatim>\<open>setClause\<close> and \<^verbatim>\<open>values\<close> grow together, so the pair
  of arrays is the list of the entries kept (a boolean \<^verbatim>\<open>isActive\<close> is pushed as 1 or 0,
  which is how the column holds it).
\<close>

fun setClause :: "entry list \<Rightarrow> entry list \<Rightarrow> entry list" where
  "setClause [] acc = acc"
| "setClause (e # es) acc =
     (if key e \<in> set allowedFields then setClause es (acc @ [e]) else setClause es acc)"

text \<open>
  \<^verbatim>\<open>UPDATE budgets SET ..., updatedAt = datetime('now') WHERE id = ? AND userId = ?\<close>
\<close>

definition run_update :: "database \<Rightarrow> datetime \<Rightarrow> entry list \<Rightarrow> nat \<Rightarrow> nat \<Rightarrow> database" where
  "run_update db now sets budgetId' userId' =
     db\<lparr>budgets :=
          map (\<lambda>b. if Budget.id b = budgetId' \<and> Budget.userId b = userId'
                    then (fold assign sets b)\<lparr>Budget.updatedAt := now\<rparr>
                    else b)
              (budgets db)\<rparr>"

definition updateBudget ::
  "database \<Rightarrow> datetime \<Rightarrow> nat \<Rightarrow> nat \<Rightarrow> entry list \<Rightarrow> (error + Budget option) \<times> database" where
  "updateBudget db now budgetId' userId' updates =
     (let sets = setClause updates []
      in if length sets = 0 then (Inl (Error ''No valid fields to update''), db)
         else (let db' = run_update db now sets budgetId' userId'
               in (Inr (getBudgetById db' budgetId'), db')))"

text \<open>\<^verbatim>\<open>DELETE FROM budgets WHERE id = ? AND userId = ?\<close>\<close>

definition deleteBudget :: "database \<Rightarrow> nat \<Rightarrow> nat \<Rightarrow> (error + unit) \<times> database" where
  "deleteBudget db budgetId' userId' =
     (Inr (),
      db\<lparr>budgets :=
           filter (\<lambda>b. \<not> (Budget.id b = budgetId' \<and> Budget.userId b = userId')) (budgets db)\<rparr>)"

subsection \<open>Spend, analysis and alerts\<close>

text \<open>
  \<^verbatim>\<open>date(purchase_date) BETWEEN date(?) AND date(?)\<close>: false as soon as one of the three
  is \<^verbatim>\<open>NULL\<close>.
\<close>

definition date_between :: "database \<Rightarrow> string \<Rightarrow> string \<Rightarrow> string \<Rightarrow> bool" where
  "date_between db d lo hi =
     (case (sql_date db d, sql_date db lo, sql_date db hi) of
        (Some d', Some lo', Some hi') \<Rightarrow> lo' \<le> d' \<and> d' \<le> hi'
      | _ \<Rightarrow> False)"

text \<open>
  \<^verbatim>\<open>calculateBudgetSpent\<close>: \<^verbatim>\<open>COALESCE(SUM(amount), 0)\<close> over the user's expenses in the
  budget's date range, of the budget's category if that is a non-empty text;
  \<^verbatim>\<open>result.total || 0\<close> at the end.
\<close>

definition calculateBudgetSpent :: "database \<Rightarrow> nat \<Rightarrow> Budget \<Rightarrow> real" where
  "calculateBudgetSpent db userId' budget =
     (let rows = filter (\<lambda>e. Expense.userId e = userId' \<and>
                             date_between db (purchase_date e)
                               (Budget.startDate budget) (Budget.endDate budget))
                        (expenses db);
          rows' = (case Budget.category budget of
                     None \<Rightarrow> rows
                   | Some c \<Rightarrow> if c = [] then rows
                               else filter (\<lambda>e. Expense.category e = c) rows);
          total = (if rows' = [] then 0 else sql_sum db (map Expense.amount rows'))
      in if total = 0 then 0 else total)"

text \<open>The loop of \<^verbatim>\<open>getBudgetAnalysis\<close> over the active budgets.\<close>

fun analysis_loop :: "database \<Rightarrow> nat \<Rightarrow> Budget list \<Rightarrow> BudgetAnalysis \<Rightarrow> BudgetAnalysis" where
  "analysis_loop db userId' [] analysis = analysis"
| "analysis_loop db userId' (budget # rest) analysis =
     (let spent' = calculateBudgetSpent db userId' budget;
          remaining' = Budget.amount budget - spent';
          percentageUsed' = js_times (js_divide spent' (Budget.amount budget)) 100;
          status' = (if js_ge percentageUsed' 100 then status_over
                     else if js_ge percentageUsed' (Budget.alertThreshold budget)
                          then status_warning
                     else status_under);
          pushed = analysis\<lparr>budgetPerformance := budgetPerformance analysis @
                     [\<lparr>BudgetPerformance.budgetId = Budget.id budget,
                       BudgetPerformance.name = Budget.name budget,
                       BudgetPerformance.budgetAmount = Budget.amount budget,
                       spent = spent',
                       remaining = remaining',
                       BudgetPerformance.percentageUsed =
                         js_over (Math_round (js_times percentageUsed' 100)) 100,
                       status = status'\<rparr>]\<rparr>;
          added = pushed\<lparr>totalSpent := totalSpent pushed + spent'\<rparr>;
          counted = (if status' = status_over
                     then added\<lparr>overBudgetCount := Suc (overBudgetCount added)\<rparr>
                     else added)
      in analysis_loop db userId' rest counted)"

definition getBudgetAnalysis :: "database \<Rightarrow> nat \<Rightarrow> error + BudgetAnalysis" where
  "getBudgetAnalysis db userId' =
     (let budgets' = getUserBudgets db userId';
          activeBudgets' = filter Budget.isActive budgets';
          analysis = \<lparr>totalBudgets = length budgets',
                      activeBudgets = length activeBudgets',
                      totalBudgetAmount = fold (\<lambda>b sum. sum + Budget.amount b) activeBudgets' 0,
                      totalSpent = 0,
                      overBudgetCount = 0,
                      savings = 0,
                      budgetPerformance = []\<rparr>;
          analysis' = analysis_loop db userId' activeBudgets' analysis
      in Inr (analysis'\<lparr>savings := totalBudgetAmount analysis' - totalSpent analysis'\<rparr>))"

text \<open>The loop of \<^verbatim>\<open>getBudgetAlerts\<close>.\<close>

fun alerts_loop :: "database \<Rightarrow> nat \<Rightarrow> Budget list \<Rightarrow> BudgetAlert list \<Rightarrow> BudgetAlert list" where
  "alerts_loop db userId' [] alerts = alerts"
| "alerts_loop db userId' (budget # rest) alerts =
     (let spent' = calculateBudgetSpent db userId' budget;
          percentageUsed' = js_times (js_divide spent' (Budget.amount budget)) 100
      in if js_ge percentageUsed' (Budget.alertThreshold budget)
         then (let (alertLevel', message') =
                     (if js_ge percentageUsed' 100
                      then (level_exceeded,
                            ''You've exceeded your '' @ Budget.name budget @ '' budget by $'' @
                            toFixed2 (spent' - Budget.amount budget))
                      else if js_ge percentageUsed' 90
                      then (level_danger,
                            ''You're close to exceeding your '' @ Budget.name budget @
                            '' budget ('' @ ToString (Math_round percentageUsed') @ ''% used)'')
                      else (level_warning,
                            ''You've used '' @ ToString (Math_round percentageUsed') @
                            ''% of your '' @ Budget.name budget @ '' budget''))
               in alerts_loop db userId' rest
                    (alerts @
                     [\<lparr>BudgetAlert.budgetId = Budget.id budget,
                       budgetName = Budget.name budget,
                       currentSpent = spent',
                       BudgetAlert.budgetAmount = Budget.amount budget,
                       BudgetAlert.percentageUsed =
                         js_over (Math_round (js_times percentageUsed' 100)) 100,
                       alertLevel = alertLevel',
                       message = message'\<rparr>]))
         else alerts_loop db userId' rest alerts)"

definition getBudgetAlerts :: "database \<Rightarrow> nat \<Rightarrow> error + BudgetAlert list" where
  "getBudgetAlerts db userId' =
     (let budgets' = getUserBudgets db userId';
          activeBudgets' = filter Budget.isActive budgets'
      in Inr (alerts_loop db userId' activeBudgets' []))"

subsection \<open>Names for what the loops compute\<close>

text \<open>
  The local \<^verbatim>\<open>percentageUsed\<close> of both loops, \<^verbatim>\<open>(spent / budget.amount) * 100\<close>, and
  the value the records carry, \<^verbatim>\<open>Math.round(percentageUsed * 100) / 100\<close>.
\<close>

definition percentage :: "database \<Rightarrow> nat \<Rightarrow> Budget \<Rightarrow> number" where
  "percentage db userId' budget =
     js_times (js_divide (calculateBudgetSpent db userId' budget) (Budget.amount budget)) 100"

definition round2 :: "number \<Rightarrow> number" where
  "round2 p = js_over (Math_round (js_times p 100)) 100"

text \<open>\<^verbatim>\<open>x < c\<close>, false for \<^verbatim>\<open>NaN\<close> like every comparison.\<close>

fun js_lt :: "number \<Rightarrow> real \<Rightarrow> bool" where
  "js_lt (Num x) c = (x < c)"
| "js_lt Infinity c = False"
| "js_lt NegInfinity c = True"
| "js_lt NaN c = False"

text \<open>The record one round of the analysis loop pushes, and the one the alert loop pushes.\<close>

definition performance :: "database \<Rightarrow> nat \<Rightarrow> Budget \<Rightarrow> BudgetPerformance" where
  "performance db userId' budget =
     \<lparr>BudgetPerformance.budgetId = Budget.id budget,
      BudgetPerformance.name = Budget.name budget,
      BudgetPerformance.budgetAmount = Budget.amount budget,
      spent = calculateBudgetSpent db userId' budget,
      remaining = Budget.amount budget - calculateBudgetSpent db userId' budget,
      BudgetPerformance.percentageUsed = round2 (percentage db userId' budget),
      status = (if js_ge (percentage db userId' budget) 100 then status_over
                else if js_ge (percentage db userId' budget) (Budget.alertThreshold budget)
                     then status_warning
                else status_under)\<rparr>"

definition alert_of :: "database \<Rightarrow> nat \<Rightarrow> Budget \<Rightarrow> BudgetAlert" where
  "alert_of db userId' budget =
     \<lparr>BudgetAlert.budgetId = Budget.id budget,
      budgetName = Budget.name budget,
      currentSpent = calculateBudgetSpent db userId' budget,
      BudgetAlert.budgetAmount = Budget.amount budget,
      BudgetAlert.percentageUsed = round2 (percentage db userId' budget),
      alertLevel = (if js_ge (percentage db userId' budget) 100 then level_exceeded
                    else if js_ge (percentage db userId' budget) 90 then level_danger
                    else level_warning),
      message = (if js_ge (percentage db userId' budget) 100
                 then ''You've exceeded your '' @ Budget.name budget @ '' budget by $'' @
                      toFixed2 (calculateBudgetSpent db userId' budget - Budget.amount budget)
                 else if js_ge (percentage db userId' budget) 90
                 then ''You're close to exceeding your '' @ Budget.name budget @
                      '' budget ('' @ ToString (Math_round (percentage db userId' budget)) @
                      ''% used)''
                 else ''You've used '' @ ToString (Math_round (percentage db userId' budget)) @
                      ''% of your '' @ Budget.name budget @ '' budget'')\<rparr>"

subsection \<open>Rounding to two decimals, as the specification words it\<close>


subsection \<open>Example tables\<close>

text \<open>
  The engine of the examples: \<^verbatim>\<open>date()\<close> reads a text \<^verbatim>\<open>YYYY-MM-DD\<close> with a month from
  1 to 12 and a day from 1 to 31 as the number \<open>YYYYMMDD\<close>, which grows with the day, and
  gives \<^verbatim>\<open>NULL\<close> for any other text; \<^verbatim>\<open>SUM()\<close> is the exact sum, which every way of
  adding gives for the whole amounts of the examples.
\<close>

fun number_of :: "string \<Rightarrow> nat \<Rightarrow> nat option" where
  "number_of [] n = Some n"
| "number_of (c # cs) n =
     (if 48 \<le> (of_char c :: nat) \<and> (of_char c :: nat) \<le> 57
      then number_of cs (10 * n + (of_char c - 48))
      else None)"

definition iso_date :: "string \<Rightarrow> nat option" where
  "iso_date s =
     (if length s = 10 \<and> s ! 4 = CHR ''-'' \<and> s ! 7 = CHR ''-''
      then (case (number_of (take 4 s) 0, number_of (take 2 (drop 5 s)) 0,
                  number_of (drop 8 s) 0) of
              (Some y, Some m, Some d) \<Rightarrow>
                if 1 \<le> m \<and> m \<le> 12 \<and> 1 \<le> d \<and> d \<le> 31
                then Some ((y * 100 + m) * 100 + d) else None
            | _ \<Rightarrow> None)
      else None)"

text \<open>A January 2025 budget and an expense, for the examples below.\<close>

definition budget_of ::
  "nat \<Rightarrow> nat \<Rightarrow> string \<Rightarrow> real \<Rightarrow> string option \<Rightarrow> real \<Rightarrow> bool \<Rightarrow> datetime \<Rightarrow> Budget" where
  "budget_of i u n a c t act ts =
     \<lparr>Budget.id = i, Budget.userId = u, Budget.name = n, Budget.amount = a,
      Budget.category = c, Budget.period = monthly, Budget.startDate = ''2025-01-01'',
      Budget.endDate = ''2025-01-31'', Budget.alertThreshold = t, Budget.isActive = act,
      Budget.createdAt = ts, Budget.updatedAt = ts\<rparr>"

definition expense_of :: "nat \<Rightarrow> string \<Rightarrow> real \<Rightarrow> string \<Rightarrow> Expense" where
  "expense_of u c a d =
     \<lparr>Expense.userId = u, Expense.category = c, Expense.amount = a, purchase_date = d\<rparr>"

text \<open>
  User 7 with four active budgets of 200 at threshold 80 (spent 100, 160, 220 and 185)
  and an inactive one; an expense outside the date range and one of another user.
\<close>

definition db_portfolio :: database where
  "db_portfolio =
     \<lparr>budgets =
        [budget_of 1 7 ''Groceries'' 200 (Some ''Groceries'') 80 True 20250101090004,
         budget_of 2 7 ''Bakery'' 200 (Some ''Bakery'') 80 True 20250101090003,
         budget_of 3 7 ''Snacks'' 200 (Some ''Snacks'') 80 True 20250101090002,
         budget_of 4 7 ''Beverages'' 200 (Some ''Beverages'') 80 True 20250101090001,
         budget_of 5 7 ''Old'' 100 None 80 False 20250101090000],
      expenses =
        [expense_of 7 ''Groceries'' 100 ''2025-01-05'',
         expense_of 7 ''Bakery'' 160 ''2025-01-06'',
         expense_of 7 ''Snacks'' 220 ''2025-01-07'',
         expense_of 7 ''Beverages'' 185 ''2025-01-08'',
         expense_of 7 ''Snacks'' 50 ''2025-02-01'',
         expense_of 2 ''Snacks'' 70 ''2025-01-10''],
      sequence = 5, sql_date = iso_date, sql_sum = sum_list\<rparr>"

definition analysis_portfolio :: BudgetAnalysis where
  "analysis_portfolio =
     \<lparr>totalBudgets = 5, activeBudgets = 4, totalBudgetAmount = 800, totalSpent = 665,
      overBudgetCount = 1, savings = 135,
      budgetPerformance =
        [\<lparr>BudgetPerformance.budgetId = 1, BudgetPerformance.name = ''Groceries'',
          BudgetPerformance.budgetAmount = 200, spent = 100, remaining = 100,
          BudgetPerformance.percentageUsed = Num 50, status = status_under\<rparr>,
         \<lparr>BudgetPerformance.budgetId = 2, BudgetPerformance.name = ''Bakery'',
          BudgetPerformance.budgetAmount = 200, spent = 160, remaining = 40,
          BudgetPerformance.percentageUsed = Num 80, status = status_warning\<rparr>,
         \<lparr>BudgetPerformance.budgetId = 3, BudgetPerformance.name = ''Snacks'',
          BudgetPerformance.budgetAmount = 200, spent = 220, remaining = - 20,
          BudgetPerformance.percentageUsed = Num 110, status = status_over\<rparr>,
         \<lparr>BudgetPerformance.budgetId = 4, BudgetPerformance.name = ''Beverages'',
          BudgetPerformance.budgetAmount = 200, spent = 185, remaining = 15,
          BudgetPerformance.percentageUsed = Num (185 / 2), status = status_warning\<rparr>]\<rparr>"


text \<open>User 2 with a budget of 30000 at threshold 80, of which 29999 is spent.\<close>

definition db_rent :: database where
  "db_rent =
     \<lparr>budgets = [budget_of 1 2 ''Rent'' 30000 None 80 True 20250101120000],
      expenses = [expense_of 2 ''Groceries'' 29999 ''2025-01-10''],
      sequence = 1, sql_date = iso_date, sql_sum = sum_list\<rparr>"

text \<open>User 2 with two budgets of amount 0, one with expenses and one without.\<close>

definition db_zero :: database where
  "db_zero =
     \<lparr>budgets = [budget_of 1 2 ''All'' 0 None 80 True 20250101120001,
                 budget_of 2 2 ''Bakery'' 0 (Some ''Bakery'') 80 True 20250101120000],
      expenses = [expense_of 2 ''Groceries'' 40 ''2025-01-10''],
      sequence = 2, sql_date = iso_date, sql_sum = sum_list\<rparr>"

text \<open>User 3 with a budget of 100 at threshold 57, of which 57 is spent.\<close>

definition db_boundary :: database where
  "db_boundary =
     \<lparr>budgets = [budget_of 1 3 ''Fuel'' 100 None 57 True 20250101120000],
      expenses = [expense_of 3 ''Fuel'' 57 ''2025-01-10''],
      sequence = 1, sql_date = iso_date, sql_sum = sum_list\<rparr>"


text \<open>
  The data of the tests \<^verbatim>\<open>should validate budget data before creation\<close> and
  \<^verbatim>\<open>should create a valid monthly budget\<close>.
\<close>

definition invalidBudgetData :: BudgetData where
  "invalidBudgetData =
     \<lparr>BudgetData.name = '''', BudgetData.amount = - 100, BudgetData.category = None,
      BudgetData.period = monthly, BudgetData.startDate = ''2025-01-01'',
      BudgetData.endDate = ''2024-12-31'', BudgetData.alertThreshold = 150,
      BudgetData.isActive = True\<rparr>"

definition validBudgetData :: BudgetData where
  "validBudgetData =
     \<lparr>BudgetData.name = ''Groceries Budget'', BudgetData.amount = 500,
      BudgetData.category = Some ''Groceries'', BudgetData.period = monthly,
      BudgetData.startDate = ''2025-01-01'', BudgetData.endDate = ''2025-01-31'',
      BudgetData.alertThreshold = 80, BudgetData.isActive = True\<rparr>"

definition db_empty :: database where
  "db_empty = \<lparr>budgets = [], expenses = [], sequence = 0, sql_date = iso_date,
     sql_sum = sum_list\<rparr>"


section \<open>Properties\<close>

declare show_nat.simps [simp del] quantum_up.simps [simp del] quantum_down.simps [simp del]

subsection \<open>The loops as maps over the active budgets\<close>

lemma loop_performance:
  "budgetPerformance (analysis_loop db u bs a) = budgetPerformance a @ map (performance db u) bs"
  by (induction bs arbitrary: a) (simp_all add: Let_def performance_def percentage_def round2_def)




lemma fold_plus_amount:
  "fold (\<lambda>b sum. sum + Budget.amount b) bs s = s + sum_list (map Budget.amount bs)"
  by (induction bs arbitrary: s) simp_all

lemma alerts_loop_eq:
  "alerts_loop db u bs acc =
     acc @ map (alert_of db u)
             (filter (\<lambda>b. js_ge (percentage db u b) (Budget.alertThreshold b)) bs)"
  by (induction bs arbitrary: acc)
     (simp_all add: Let_def alert_of_def percentage_def round2_def)

lemma getBudgetAlerts_eq:
  "getBudgetAlerts db u =
     Inr (map (alert_of db u)
            (filter (\<lambda>b. js_ge (percentage db u b) (Budget.alertThreshold b))
               (filter Budget.isActive (getUserBudgets db u))))"
  by (simp add: getBudgetAlerts_def Let_def alerts_loop_eq)

lemma getBudgetAnalysis_total: "\<exists>a. getBudgetAnalysis db u = Inr a"
  by (simp add: getBudgetAnalysis_def Let_def)

lemma getBudgetAnalysis_performance:
  "getBudgetAnalysis db u = Inr a \<Longrightarrow>
   budgetPerformance a = map (performance db u) (filter Budget.isActive (getUserBudgets db u))"
  by (auto simp add: getBudgetAnalysis_def Let_def loop_performance)

lemma getBudgetAnalysis_nth:
  assumes "getBudgetAnalysis db u = Inr a" and "i < length (budgetPerformance a)"
  shows "budgetPerformance a ! i =
           performance db u (filter Budget.isActive (getUserBudgets db u) ! i)"
  using assms by (simp add: getBudgetAnalysis_performance)






lemma percentage_performance:
  "js_times (js_divide (spent (performance db u b))
       (BudgetPerformance.budgetAmount (performance db u b))) 100 = percentage db u b"
  by (simp add: performance_def percentage_def)


subsection \<open>Division by zero\<close>

lemma percentage_zero:
  "Budget.amount b = 0 \<Longrightarrow>
   percentage db u b =
     (if calculateBudgetSpent db u b = 0 then NaN
      else if 0 < calculateBudgetSpent db u b then Infinity else NegInfinity)"
  by (simp add: percentage_def js_divide_def)

subsection \<open>The analysis in closed form\<close>

lemma analysis_loop_eq:
  "analysis_loop db u bs a =
     a\<lparr>totalSpent := totalSpent a + sum_list (map (calculateBudgetSpent db u) bs),
       overBudgetCount :=
         overBudgetCount a + length (filter (\<lambda>b. js_ge (percentage db u b) 100) bs),
       budgetPerformance := budgetPerformance a @ map (performance db u) bs\<rparr>"
  by (induction bs arbitrary: a)
     (simp_all add: Let_def performance_def percentage_def round2_def)

lemma getBudgetAnalysis_eq:
  "getBudgetAnalysis db u =
     Inr \<lparr>totalBudgets = length (getUserBudgets db u),
          activeBudgets = length (filter Budget.isActive (getUserBudgets db u)),
          totalBudgetAmount =
            sum_list (map Budget.amount (filter Budget.isActive (getUserBudgets db u))),
          totalSpent =
            sum_list (map (calculateBudgetSpent db u)
                        (filter Budget.isActive (getUserBudgets db u))),
          overBudgetCount =
            length (filter (\<lambda>b. js_ge (percentage db u b) 100)
                      (filter Budget.isActive (getUserBudgets db u))),
          savings =
            sum_list (map Budget.amount (filter Budget.isActive (getUserBudgets db u))) -
            sum_list (map (calculateBudgetSpent db u)
                        (filter Budget.isActive (getUserBudgets db u))),
          budgetPerformance =
            map (performance db u) (filter Budget.isActive (getUserBudgets db u))\<rparr>"
  by (simp add: getBudgetAnalysis_def Let_def analysis_loop_eq fold_plus_amount
      del: filter_filter)

subsection \<open>The example tables evaluated\<close>

text \<open>The doubles the examples go through: each percentage and its rounding.\<close>

lemmas double_eval = double_def quantum_def quantum_down.simps quantum_up.simps
  round_even_def Let_def

lemma percentage_values:
  "js_times (js_divide 100 200) 100 = Num 50"
  "js_times (js_divide 160 200) 100 = Num 80"
  "js_times (js_divide 220 200) 100 = Num (7740561859543041 / 70368744177664)"
  "js_times (js_divide 185 200) 100 = Num (185 / 2)"
  "js_times (js_divide 29999 30000) 100 = Num (439789990955363 / 4398046511104)"
  "js_times (js_divide 57 100) 100 = Num (8022036836253695 / 140737488355328)"
  "js_times (js_divide 23 160) 100 = Num (8092405580431359 / 562949953421312)"
  by (simp_all add: js_divide_def double_eval)

lemma round2_values:
  "round2 (Num 50) = Num 50"
  "round2 (Num 80) = Num 80"
  "round2 (Num (7740561859543041 / 70368744177664)) = Num 110"
  "round2 (Num (185 / 2)) = Num (185 / 2)"
  "round2 (Num (439789990955363 / 4398046511104)) = Num 100"
  "round2 (Num (8022036836253695 / 140737488355328)) = Num 57"
  "round2 (Num (8092405580431359 / 562949953421312)) =
     Num (8089590830664253 / 562949953421312)"
  by (simp_all add: round2_def js_divide_def double_eval)

lemmas concrete_defs = getBudgetAnalysis_def getBudgetAlerts_def getUserBudgets_def
  calculateBudgetSpent_def date_between_def iso_date_def js_divide_def budget_of_def
  expense_of_def Let_def toFixed2_def show_nat.simps show_int_def

lemmas example_defs = getUserBudgets_def calculateBudgetSpent_def date_between_def
  iso_date_def budget_of_def expense_of_def Let_def performance_def alert_of_def
  percentage_def toFixed2_def show_nat.simps show_int_def percentage_values round2_values

lemma portfolio_analysis: "getBudgetAnalysis db_portfolio 7 = Inr analysis_portfolio"
  by (simp add: getBudgetAnalysis_eq example_defs db_portfolio_def analysis_portfolio_def)


lemma portfolio_active:
  "filter Budget.isActive (getUserBudgets db_portfolio 7) =
     [budget_of 1 7 ''Groceries'' 200 (Some ''Groceries'') 80 True 20250101090004,
      budget_of 2 7 ''Bakery'' 200 (Some ''Bakery'') 80 True 20250101090003,
      budget_of 3 7 ''Snacks'' 200 (Some ''Snacks'') 80 True 20250101090002,
      budget_of 4 7 ''Beverages'' 200 (Some ''Beverages'') 80 True 20250101090001]"
  by (simp add: concrete_defs db_portfolio_def)

subsection \<open>Evaluation of one budget\<close>




text \<open>
  57 of 100 at threshold 57: the service computes 56.99999999999999, which is below the
  threshold, so the status is \<open>under\<close> in a record whose \<open>percentageUsed\<close> reads 57.
\<close>

theorem boundary_status:
  "getBudgetAnalysis db_boundary 3 =
     Inr \<lparr>totalBudgets = 1, activeBudgets = 1, totalBudgetAmount = 100, totalSpent = 57,
          overBudgetCount = 0, savings = 43,
          budgetPerformance =
            [\<lparr>BudgetPerformance.budgetId = 1, BudgetPerformance.name = ''Fuel'',
              BudgetPerformance.budgetAmount = 100, spent = 57, remaining = 43,
              BudgetPerformance.percentageUsed = Num 57, status = status_under\<rparr>]\<rparr> \<and>
   map Budget.alertThreshold (budgets db_boundary) = [57]"
  by (simp add: getBudgetAnalysis_eq example_defs db_boundary_def)

text \<open>
  Likewise 29999 of 30000 is 99.99666666666667 percent: the status is \<open>warning\<close> and the
  record reads 100.
\<close>

lemma rounded_percentage_status:
  "getBudgetAnalysis db_rent 2 =
     Inr \<lparr>totalBudgets = 1, activeBudgets = 1, totalBudgetAmount = 30000, totalSpent = 29999,
          overBudgetCount = 0, savings = 1,
          budgetPerformance =
            [\<lparr>BudgetPerformance.budgetId = 1, BudgetPerformance.name = ''Rent'',
              BudgetPerformance.budgetAmount = 30000, spent = 29999, remaining = 1,
              BudgetPerformance.percentageUsed = Num 100, status = status_warning\<rparr>]\<rparr>"
  by (simp add: getBudgetAnalysis_eq example_defs db_rent_def)

text \<open>
  Claim C4, amended. For every active budget with \<open>alertThreshold\<close> in [1,100], the status
  of its performance record follows the percentage as the service computes it,
  \<open>p = (spent / budgetAmount) * 100\<close> with the quotient and the product each rounded to
  the nearest double: \<open>under\<close> when \<open>p\<close> is below the threshold, \<open>warning\<close> when it is at
  least the threshold and below 100, \<open>over\<close> when it is at least 100. The record's
  \<open>percentageUsed\<close> is \<open>p\<close> rounded to two decimals, not \<open>p\<close>.
\<close>

theorem status_by_unrounded_percentage:
  assumes "getBudgetAnalysis db u = Inr a" and "i < length (budgetPerformance a)"
    and "1 \<le> Budget.alertThreshold (filter Budget.isActive (getUserBudgets db u) ! i)"
    and "Budget.alertThreshold (filter Budget.isActive (getUserBudgets db u) ! i) \<le> 100"
  shows "(js_lt (js_times (js_divide (spent (budgetPerformance a ! i))
                   (BudgetPerformance.budgetAmount (budgetPerformance a ! i))) 100)
               (Budget.alertThreshold (filter Budget.isActive (getUserBudgets db u) ! i)) \<longrightarrow>
            status (budgetPerformance a ! i) = status_under) \<and>
         (js_ge (js_times (js_divide (spent (budgetPerformance a ! i))
                   (BudgetPerformance.budgetAmount (budgetPerformance a ! i))) 100)
               (Budget.alertThreshold (filter Budget.isActive (getUserBudgets db u) ! i)) \<and>
          js_lt (js_times (js_divide (spent (budgetPerformance a ! i))
                   (BudgetPerformance.budgetAmount (budgetPerformance a ! i))) 100) 100 \<longrightarrow>
            status (budgetPerformance a ! i) = status_warning) \<and>
         (js_ge (js_times (js_divide (spent (budgetPerformance a ! i))
                   (BudgetPerformance.budgetAmount (budgetPerformance a ! i))) 100) 100 \<longrightarrow>
            status (budgetPerformance a ! i) = status_over) \<and>
         BudgetPerformance.percentageUsed (budgetPerformance a ! i) =
           round2 (js_times (js_divide (spent (budgetPerformance a ! i))
                     (BudgetPerformance.budgetAmount (budgetPerformance a ! i))) 100) \<and>
         spent (budgetPerformance a ! i) =
           calculateBudgetSpent db u (filter Budget.isActive (getUserBudgets db u) ! i) \<and>
         BudgetPerformance.budgetAmount (budgetPerformance a ! i) =
           Budget.amount (filter Budget.isActive (getUserBudgets db u) ! i)"
proof -
  let ?b = "filter Budget.isActive (getUserBudgets db u) ! i"
  have p: "budgetPerformance a ! i = performance db u ?b"
    using assms(1,2) by (rule getBudgetAnalysis_nth)
  have st: "status (performance db u ?b) =
      (if js_ge (percentage db u ?b) 100 then status_over
       else if js_ge (percentage db u ?b) (Budget.alertThreshold ?b) then status_warning
       else status_under)"
    and pu: "BudgetPerformance.percentageUsed (performance db u ?b) =
      round2 (percentage db u ?b)"
    and sp: "spent (performance db u ?b) = calculateBudgetSpent db u ?b"
    and am: "BudgetPerformance.budgetAmount (performance db u ?b) = Budget.amount ?b"
    by (simp_all add: performance_def)
  have cls: "(js_lt (percentage db u ?b) (Budget.alertThreshold ?b) \<longrightarrow>
        status (performance db u ?b) = status_under) \<and>
      (js_ge (percentage db u ?b) (Budget.alertThreshold ?b) \<and>
       js_lt (percentage db u ?b) 100 \<longrightarrow>
        status (performance db u ?b) = status_warning) \<and>
      (js_ge (percentage db u ?b) 100 \<longrightarrow> status (performance db u ?b) = status_over)"
    unfolding st using assms(3,4) by (cases "percentage db u ?b") auto
  show ?thesis
    unfolding p percentage_performance using cls pu sp am by blast
qed

theorem status_by_unrounded_percentage_witness:
  "getBudgetAnalysis db_portfolio 7 = Inr analysis_portfolio \<and>
   2 < length (budgetPerformance analysis_portfolio) \<and>
   (1::real) \<le> 80 \<and> (80::real) \<le> 100 \<and>
   map Budget.alertThreshold (filter Budget.isActive (getUserBudgets db_portfolio 7)) =
     [80, 80, 80, 80] \<and>
   js_lt (js_times (js_divide 100 200) 100) 80 \<and>
   status (budgetPerformance analysis_portfolio ! 0) = status_under \<and>
   js_ge (js_times (js_divide 160 200) 100) 80 \<and>
   js_lt (js_times (js_divide 160 200) 100) 100 \<and>
   status (budgetPerformance analysis_portfolio ! 1) = status_warning \<and>
   js_ge (js_times (js_divide 220 200) 100) 100 \<and>
   status (budgetPerformance analysis_portfolio ! 2) = status_over"
proof -
  have len: "0 < length (budgetPerformance analysis_portfolio)"
    "1 < length (budgetPerformance analysis_portfolio)"
    "2 < length (budgetPerformance analysis_portfolio)"
    by (simp_all add: analysis_portfolio_def)
  have thr: "map Budget.alertThreshold (filter Budget.isActive (getUserBudgets db_portfolio 7)) =
      [80, 80, 80, 80]"
    by (simp add: portfolio_active budget_of_def)
  have lo: "1 \<le> Budget.alertThreshold (filter Budget.isActive (getUserBudgets db_portfolio 7) ! 0)"
    "1 \<le> Budget.alertThreshold (filter Budget.isActive (getUserBudgets db_portfolio 7) ! 1)"
    "1 \<le> Budget.alertThreshold (filter Budget.isActive (getUserBudgets db_portfolio 7) ! 2)"
    by (simp_all add: portfolio_active budget_of_def)
  have hi: "Budget.alertThreshold (filter Budget.isActive (getUserBudgets db_portfolio 7) ! 0) \<le> 100"
    "Budget.alertThreshold (filter Budget.isActive (getUserBudgets db_portfolio 7) ! 1) \<le> 100"
    "Budget.alertThreshold (filter Budget.isActive (getUserBudgets db_portfolio 7) ! 2) \<le> 100"
    by (simp_all add: portfolio_active budget_of_def)
  have pct: "js_lt (js_times (js_divide 100 200) 100) 80"
    "js_ge (js_times (js_divide 160 200) 100) 80"
    "js_lt (js_times (js_divide 160 200) 100) 100"
    "js_ge (js_times (js_divide 220 200) 100) 100"
    by (simp_all add: percentage_values)
  have "status (budgetPerformance analysis_portfolio ! 0) = status_under"
    using status_by_unrounded_percentage [OF portfolio_analysis len(1) lo(1) hi(1)]
    by (simp add: portfolio_active analysis_portfolio_def budget_of_def percentage_values)
  moreover have "status (budgetPerformance analysis_portfolio ! 1) = status_warning"
    using status_by_unrounded_percentage [OF portfolio_analysis len(2) lo(2) hi(2)]
    by (simp add: portfolio_active analysis_portfolio_def budget_of_def percentage_values)
  moreover have "status (budgetPerformance analysis_portfolio ! 2) = status_over"
    using status_by_unrounded_percentage [OF portfolio_analysis len(3) lo(3) hi(3)]
    by (simp add: portfolio_active analysis_portfolio_def budget_of_def percentage_values)
  ultimately show ?thesis
    using portfolio_analysis len(3) thr pct by simp
qed

subsection \<open>Alerts\<close>


text \<open>
  Likewise an alert can carry a rounded \<open>percentageUsed\<close> of 100 at level \<open>danger\<close>: the
  level is decided before the rounding, as the status is.
\<close>

lemma rounded_percentage_alert_level:
  "getBudgetAlerts db_rent 2 =
     Inr [\<lparr>BudgetAlert.budgetId = 1, budgetName = ''Rent'', currentSpent = 29999,
           BudgetAlert.budgetAmount = 30000, BudgetAlert.percentageUsed = Num 100,
           alertLevel = level_danger,
           message = ''You're close to exceeding your Rent budget (100% used)''\<rparr>]"
  by (simp add: getBudgetAlerts_eq example_defs db_rent_def)



subsection \<open>A stored amount of zero\<close>

text \<open>
  With two active budgets of amount 0, one with an expense of 40 and one with none, the
  analysis returns normally, with \<open>percentageUsed\<close> \<^verbatim>\<open>Infinity\<close> and \<^verbatim>\<open>NaN\<close>.
\<close>

theorem zero_amount_yields_NaN:
  "getBudgetAnalysis db_zero 2 =
     Inr \<lparr>totalBudgets = 2, activeBudgets = 2, totalBudgetAmount = 0, totalSpent = 40,
          overBudgetCount = 1, savings = - 40,
          budgetPerformance =
            [\<lparr>BudgetPerformance.budgetId = 1, BudgetPerformance.name = ''All'',
              BudgetPerformance.budgetAmount = 0, spent = 40, remaining = - 40,
              BudgetPerformance.percentageUsed = Infinity, status = status_over\<rparr>,
             \<lparr>BudgetPerformance.budgetId = 2, BudgetPerformance.name = ''Bakery'',
              BudgetPerformance.budgetAmount = 0, spent = 0, remaining = 0,
              BudgetPerformance.percentageUsed = NaN, status = status_under\<rparr>]\<rparr>"
  by (simp add: concrete_defs db_zero_def)

text \<open>
  Claim C3, amended. A stored budget of amount 0 raises no error in either evaluation:
  \<^verbatim>\<open>getBudgetAnalysis\<close> and \<^verbatim>\<open>getBudgetAlerts\<close> always return. A performance record of
  amount 0 has \<open>percentageUsed\<close> \<^verbatim>\<open>NaN\<close> when nothing is spent, \<^verbatim>\<open>Infinity\<close> when the
  spend is positive and \<^verbatim>\<open>-Infinity\<close> when it is negative, with status \<open>over\<close> in the
  positive case and \<open>under\<close> otherwise; an alert of amount 0 has \<open>percentageUsed\<close>
  \<^verbatim>\<open>Infinity\<close> and level \<open>exceeded\<close>.
\<close>

theorem zero_amount_not_rejected:
  "(\<exists>a. getBudgetAnalysis db u = Inr a \<and>
        (\<forall>p \<in> set (budgetPerformance a).
           BudgetPerformance.budgetAmount p = 0 \<longrightarrow>
             BudgetPerformance.percentageUsed p =
               (if spent p = 0 then NaN else if 0 < spent p then Infinity else NegInfinity) \<and>
             status p = (if 0 < spent p then status_over else status_under))) \<and>
   (\<exists>alerts. getBudgetAlerts db u = Inr alerts \<and>
        (\<forall>x \<in> set alerts.
           BudgetAlert.budgetAmount x = 0 \<longrightarrow>
             BudgetAlert.percentageUsed x = Infinity \<and> alertLevel x = level_exceeded \<and>
             0 < currentSpent x))"
proof -
  have perf: "BudgetPerformance.percentageUsed (performance db u b) =
        (if spent (performance db u b) = 0 then NaN
         else if 0 < spent (performance db u b) then Infinity else NegInfinity) \<and>
      status (performance db u b) =
        (if 0 < spent (performance db u b) then status_over else status_under)"
    if "Budget.amount b = 0" for b
    using that by (simp add: performance_def percentage_zero round2_def)
  have alert: "BudgetAlert.percentageUsed (alert_of db u b) = Infinity \<and>
      alertLevel (alert_of db u b) = level_exceeded \<and> 0 < currentSpent (alert_of db u b)"
    if "Budget.amount b = 0" and "js_ge (percentage db u b) (Budget.alertThreshold b)" for b
    using that by (simp add: alert_of_def percentage_zero round2_def split: if_splits)
  obtain a where a: "getBudgetAnalysis db u = Inr a"
    using getBudgetAnalysis_total by blast
  have "\<forall>p \<in> set (budgetPerformance a).
           BudgetPerformance.budgetAmount p = 0 \<longrightarrow>
             BudgetPerformance.percentageUsed p =
               (if spent p = 0 then NaN else if 0 < spent p then Infinity else NegInfinity) \<and>
             status p = (if 0 < spent p then status_over else status_under)"
  proof (intro ballI impI)
    fix p assume "p \<in> set (budgetPerformance a)" and z: "BudgetPerformance.budgetAmount p = 0"
    then obtain b where p: "p = performance db u b"
      unfolding getBudgetAnalysis_performance [OF a] by auto
    have "Budget.amount b = 0"
      using z by (simp add: p performance_def)
    then show "BudgetPerformance.percentageUsed p =
               (if spent p = 0 then NaN else if 0 < spent p then Infinity else NegInfinity) \<and>
             status p = (if 0 < spent p then status_over else status_under)"
      unfolding p by (rule perf)
  qed
  moreover have "\<forall>x \<in> set (map (alert_of db u)
            (filter (\<lambda>b. js_ge (percentage db u b) (Budget.alertThreshold b))
               (filter Budget.isActive (getUserBudgets db u)))).
           BudgetAlert.budgetAmount x = 0 \<longrightarrow>
             BudgetAlert.percentageUsed x = Infinity \<and> alertLevel x = level_exceeded \<and>
             0 < currentSpent x"
  proof (intro ballI impI)
    fix x
    assume "x \<in> set (map (alert_of db u)
            (filter (\<lambda>b. js_ge (percentage db u b) (Budget.alertThreshold b))
               (filter Budget.isActive (getUserBudgets db u))))"
      and z: "BudgetAlert.budgetAmount x = 0"
    then obtain b where x: "x = alert_of db u b"
      and ge: "js_ge (percentage db u b) (Budget.alertThreshold b)"
      by auto
    have "Budget.amount b = 0"
      using z by (simp add: x alert_of_def)
    then show "BudgetAlert.percentageUsed x = Infinity \<and> alertLevel x = level_exceeded \<and>
             0 < currentSpent x"
      unfolding x using ge by (rule alert)
  qed
  ultimately show ?thesis
    using a getBudgetAlerts_eq by blast
qed

theorem zero_amount_not_rejected_witness:
  "(\<exists>a. getBudgetAnalysis db_zero 2 = Inr a \<and>
        map BudgetPerformance.budgetAmount (budgetPerformance a) = [0, 0] \<and>
        map BudgetPerformance.percentageUsed (budgetPerformance a) = [Infinity, NaN] \<and>
        map status (budgetPerformance a) = [status_over, status_under]) \<and>
   (\<exists>alerts. getBudgetAlerts db_zero 2 = Inr alerts \<and>
        map BudgetAlert.budgetAmount alerts = [0] \<and>
        map BudgetAlert.percentageUsed alerts = [Infinity] \<and>
        map alertLevel alerts = [level_exceeded])"
  using zero_amount_not_rejected [of db_zero 2]
  by (simp add: concrete_defs db_zero_def)


subsection \<open>The portfolio\<close>


subsection \<open>Creating a budget\<close>

lemma createBudget_result:
  "createBudget db now u d =
     (let row = \<lparr>Budget.id = lastID db, Budget.userId = u,
                 Budget.name = BudgetData.name d, Budget.amount = BudgetData.amount d,
                 Budget.category = or_null (BudgetData.category d),
                 Budget.period = BudgetData.period d,
                 Budget.startDate = BudgetData.startDate d,
                 Budget.endDate = BudgetData.endDate d,
                 Budget.alertThreshold = BudgetData.alertThreshold d,
                 Budget.isActive = BudgetData.isActive d,
                 Budget.createdAt = now, Budget.updatedAt = now\<rparr>
      in (Inl (TypeError ''Cannot read properties of undefined (reading 'lastID')''),
          db\<lparr>budgets := budgets db @ [row], sequence := lastID db\<rparr>))"
  by (simp add: createBudget_def Let_def)

text \<open>
  Claim C2 (the code departs from it). \<^verbatim>\<open>createBudget\<close> checks nothing and never
  returns a budget: it inserts the row and then rejects with the \<^verbatim>\<open>TypeError\<close> of
  reading \<^verbatim>\<open>result.lastID\<close>. On the empty table the data of the repository's test
  \<^verbatim>\<open>should validate budget data before creation\<close> (amount -100, threshold 150, end date
  before start date) is stored as row 1 although the call fails, and the data of the
  test \<^verbatim>\<open>should create a valid monthly budget\<close> is stored and the call fails all the
  same.
\<close>

theorem create_persists_invalid_budget:
  "createBudget db_empty 20250101090000 1 invalidBudgetData =
     (Inl (TypeError ''Cannot read properties of undefined (reading 'lastID')''),
      \<lparr>budgets = [\<lparr>Budget.id = 1, Budget.userId = 1, Budget.name = '''',
                   Budget.amount = - 100, Budget.category = None, Budget.period = monthly,
                   Budget.startDate = ''2025-01-01'', Budget.endDate = ''2024-12-31'',
                   Budget.alertThreshold = 150, Budget.isActive = True,
                   Budget.createdAt = 20250101090000, Budget.updatedAt = 20250101090000\<rparr>],
       expenses = [], sequence = 1, sql_date = iso_date, sql_sum = sum_list\<rparr>) \<and>
   createBudget db_empty 20250101090000 1 validBudgetData =
     (Inl (TypeError ''Cannot read properties of undefined (reading 'lastID')''),
      \<lparr>budgets = [\<lparr>Budget.id = 1, Budget.userId = 1, Budget.name = ''Groceries Budget'',
                   Budget.amount = 500, Budget.category = Some ''Groceries'',
                   Budget.period = monthly,
                   Budget.startDate = ''2025-01-01'', Budget.endDate = ''2025-01-31'',
                   Budget.alertThreshold = 80, Budget.isActive = True,
                   Budget.createdAt = 20250101090000, Budget.updatedAt = 20250101090000\<rparr>],
       expenses = [], sequence = 1, sql_date = iso_date, sql_sum = sum_list\<rparr>)"
  by (simp add: createBudget_def lastID_def or_null_def Let_def db_empty_def
      invalidBudgetData_def validBudgetData_def)

text \<open>
  Claim C10. Creating a budget with the empty text as category does exactly what creating
  it with no category does: the row it stores has category \<^verbatim>\<open>null\<close>, and for every state
  of the expense table and of the engine the spend of that row is
  \<^verbatim>\<open>COALESCE(SUM(amount), 0)\<close> over the user's expenses in the budget's date range, of
  every category.
\<close>

theorem empty_category_all_categories:
  "createBudget db now u (d\<lparr>BudgetData.category := Some ''''\<rparr>) =
     createBudget db now u (d\<lparr>BudgetData.category := None\<rparr>) \<and>
   (\<exists>b. budgets (snd (createBudget db now u (d\<lparr>BudgetData.category := Some ''''\<rparr>))) =
          budgets db @ [b] \<and>
        Budget.category b = None \<and>
        (\<forall>db' v. calculateBudgetSpent db' v b =
           (if filter (\<lambda>e. Expense.userId e = v \<and>
                          date_between db' (purchase_date e)
                            (BudgetData.startDate d) (BudgetData.endDate d))
                  (expenses db') = []
            then 0
            else if sql_sum db' (map Expense.amount
                   (filter (\<lambda>e. Expense.userId e = v \<and>
                                 date_between db' (purchase_date e)
                                   (BudgetData.startDate d) (BudgetData.endDate d))
                      (expenses db'))) = 0
            then 0
            else sql_sum db' (map Expense.amount
                   (filter (\<lambda>e. Expense.userId e = v \<and>
                                 date_between db' (purchase_date e)
                                   (BudgetData.startDate d) (BudgetData.endDate d))
                      (expenses db'))))))"
proof -
  let ?row = "\<lparr>Budget.id = lastID db, Budget.userId = u,
                 Budget.name = BudgetData.name d, Budget.amount = BudgetData.amount d,
                 Budget.category = None,
                 Budget.period = BudgetData.period d,
                 Budget.startDate = BudgetData.startDate d,
                 Budget.endDate = BudgetData.endDate d,
                 Budget.alertThreshold = BudgetData.alertThreshold d,
                 Budget.isActive = BudgetData.isActive d,
                 Budget.createdAt = now, Budget.updatedAt = now\<rparr>"
  have null: "or_null (Some '''') = None" "or_null None = None"
    by (simp_all add: or_null_def)
  have empty: "createBudget db now u (d\<lparr>BudgetData.category := Some ''''\<rparr>) =
      (Inl (TypeError ''Cannot read properties of undefined (reading 'lastID')''),
       db\<lparr>budgets := budgets db @ [?row], sequence := lastID db\<rparr>)"
    by (simp add: createBudget_result null Let_def)
  have none: "createBudget db now u (d\<lparr>BudgetData.category := None\<rparr>) =
      (Inl (TypeError ''Cannot read properties of undefined (reading 'lastID')''),
       db\<lparr>budgets := budgets db @ [?row], sequence := lastID db\<rparr>)"
    by (simp add: createBudget_result null Let_def)
  have spend: "calculateBudgetSpent db' v ?row =
     (if filter (\<lambda>e. Expense.userId e = v \<and>
                    date_between db' (purchase_date e)
                      (BudgetData.startDate d) (BudgetData.endDate d))
            (expenses db') = []
      then 0
      else if sql_sum db' (map Expense.amount
             (filter (\<lambda>e. Expense.userId e = v \<and>
                           date_between db' (purchase_date e)
                             (BudgetData.startDate d) (BudgetData.endDate d))
                (expenses db'))) = 0
      then 0
      else sql_sum db' (map Expense.amount
             (filter (\<lambda>e. Expense.userId e = v \<and>
                           date_between db' (purchase_date e)
                             (BudgetData.startDate d) (BudgetData.endDate d))
                (expenses db'))))" for db' v
    by (simp add: calculateBudgetSpent_def Let_def)
  have "budgets (snd (createBudget db now u (d\<lparr>BudgetData.category := Some ''''\<rparr>))) =
       budgets db @ [?row]"
    "Budget.category ?row = None"
    by (simp_all add: empty)
  with spend empty none show ?thesis
    by (intro conjI exI [of _ ?row]) simp_all
qed

subsection \<open>Updating a budget\<close>

lemma setClause_filter:
  "setClause es acc = acc @ filter (\<lambda>e. key e \<in> set allowedFields) es"
  by (induction es arbitrary: acc) auto

lemma assign_keeps_identity:
  "key e \<in> set allowedFields \<Longrightarrow>
   Budget.id (assign e b) = Budget.id b \<and> Budget.userId (assign e b) = Budget.userId b \<and>
   Budget.createdAt (assign e b) = Budget.createdAt b"
  by (cases e) (simp_all add: allowedFields_def)

lemma fold_assign_keeps_identity:
  "\<forall>e \<in> set es. key e \<in> set allowedFields \<Longrightarrow>
   Budget.id (fold assign es b) = Budget.id b \<and>
   Budget.userId (fold assign es b) = Budget.userId b \<and>
   Budget.createdAt (fold assign es b) = Budget.createdAt b"
  by (induction es arbitrary: b) (simp_all add: assign_keeps_identity)

lemma assign_other_column:
  "(''name'' \<noteq> key e \<longrightarrow> Budget.name (assign e b) = Budget.name b) \<and>
   (''amount'' \<noteq> key e \<longrightarrow> Budget.amount (assign e b) = Budget.amount b) \<and>
   (''category'' \<noteq> key e \<longrightarrow> Budget.category (assign e b) = Budget.category b) \<and>
   (''period'' \<noteq> key e \<longrightarrow> Budget.period (assign e b) = Budget.period b) \<and>
   (''startDate'' \<noteq> key e \<longrightarrow> Budget.startDate (assign e b) = Budget.startDate b) \<and>
   (''endDate'' \<noteq> key e \<longrightarrow> Budget.endDate (assign e b) = Budget.endDate b) \<and>
   (''alertThreshold'' \<noteq> key e \<longrightarrow>
      Budget.alertThreshold (assign e b) = Budget.alertThreshold b) \<and>
   (''isActive'' \<noteq> key e \<longrightarrow> Budget.isActive (assign e b) = Budget.isActive b)"
  by (cases e) simp_all

lemma fold_assign_name:
  "''name'' \<notin> key ` set es \<Longrightarrow> Budget.name (fold assign es b) = Budget.name b"
  by (induction es arbitrary: b) (simp_all add: assign_other_column)

lemma fold_assign_amount:
  "''amount'' \<notin> key ` set es \<Longrightarrow> Budget.amount (fold assign es b) = Budget.amount b"
  by (induction es arbitrary: b) (simp_all add: assign_other_column)

lemma fold_assign_category:
  "''category'' \<notin> key ` set es \<Longrightarrow> Budget.category (fold assign es b) = Budget.category b"
  by (induction es arbitrary: b) (simp_all add: assign_other_column)

lemma fold_assign_period:
  "''period'' \<notin> key ` set es \<Longrightarrow> Budget.period (fold assign es b) = Budget.period b"
  by (induction es arbitrary: b) (simp_all add: assign_other_column)

lemma fold_assign_startDate:
  "''startDate'' \<notin> key ` set es \<Longrightarrow>
   Budget.startDate (fold assign es b) = Budget.startDate b"
  by (induction es arbitrary: b) (simp_all add: assign_other_column)

lemma fold_assign_endDate:
  "''endDate'' \<notin> key ` set es \<Longrightarrow> Budget.endDate (fold assign es b) = Budget.endDate b"
  by (induction es arbitrary: b) (simp_all add: assign_other_column)

lemma fold_assign_alertThreshold:
  "''alertThreshold'' \<notin> key ` set es \<Longrightarrow>
   Budget.alertThreshold (fold assign es b) = Budget.alertThreshold b"
  by (induction es arbitrary: b) (simp_all add: assign_other_column)

lemma fold_assign_isActive:
  "''isActive'' \<notin> key ` set es \<Longrightarrow> Budget.isActive (fold assign es b) = Budget.isActive b"
  by (induction es arbitrary: b) (simp_all add: assign_other_column)

lemmas fold_assign_columns = fold_assign_name fold_assign_amount fold_assign_category
  fold_assign_period fold_assign_startDate fold_assign_endDate fold_assign_alertThreshold
  fold_assign_isActive

lemma key_image_filter:
  "k \<notin> key ` set es \<Longrightarrow> k \<notin> key ` set (filter P es)"
  by auto

lemmas fold_assign_filtered = fold_assign_columns [OF key_image_filter]

text \<open>The row at a position after the \<^verbatim>\<open>UPDATE\<close> statement.\<close>

lemma run_update_nth:
  "i < length (budgets db) \<Longrightarrow>
   budgets (run_update db now sets bid uid) ! i =
     (if Budget.id (budgets db ! i) = bid \<and> Budget.userId (budgets db ! i) = uid
      then (fold assign sets (budgets db ! i))\<lparr>Budget.updatedAt := now\<rparr>
      else budgets db ! i)"
  by (simp add: run_update_def)

lemma updateBudget_cases:
  "updateBudget db now bid uid updates =
     (if filter (\<lambda>e. key e \<in> set allowedFields) updates = []
      then (Inl (Error ''No valid fields to update''), db)
      else (Inr (getBudgetById
                   (run_update db now (filter (\<lambda>e. key e \<in> set allowedFields) updates) bid uid)
                   bid),
            run_update db now (filter (\<lambda>e. key e \<in> set allowedFields) updates) bid uid))"
  by (simp add: updateBudget_def setClause_filter Let_def)

text \<open>
  When no row matches \<open>(budgetId, userId)\<close> and some allowed field is supplied, the
  statement changes nothing and the call resolves with whatever row has that id.
\<close>

lemma run_update_unmatched:
  assumes "filter (\<lambda>b. Budget.id b = bid \<and> Budget.userId b = uid) (budgets db) = []"
  shows "run_update db now sets bid uid = db"
proof -
  from assms have "\<forall>b \<in> set (budgets db). \<not> (Budget.id b = bid \<and> Budget.userId b = uid)"
    by (simp add: filter_empty_conv)
  then have "map (\<lambda>b. if Budget.id b = bid \<and> Budget.userId b = uid
                     then (fold assign sets b)\<lparr>Budget.updatedAt := now\<rparr> else b)
               (budgets db) = budgets db"
    by (intro map_idI) auto
  then show ?thesis
    by (simp add: run_update_def)
qed

lemma updateBudget_unmatched:
  assumes "filter (\<lambda>b. Budget.id b = bid \<and> Budget.userId b = uid) (budgets db) = []"
    and "filter (\<lambda>e. key e \<in> set allowedFields) updates \<noteq> []"
  shows "updateBudget db now bid uid updates = (Inr (getBudgetById db bid), db)"
  using assms(2) by (simp add: updateBudget_cases run_update_unmatched [OF assms(1)])

text \<open>
  Claim C1 (the code departs from it). The \<^verbatim>\<open>UPDATE\<close> statement is scoped by
  \<^verbatim>\<open>id\<close> and \<^verbatim>\<open>userId\<close>, the read that follows it by \<^verbatim>\<open>id\<close> alone: when user 1
  updates budget 1, which user 2 owns, no row changes, no error is raised, and the call
  returns user 2's budget.
\<close>

theorem update_returns_foreign_budget:
  "updateBudget db_rent 20250201000000 1 1 [E_amount 5] =
     (Inr (Some \<lparr>Budget.id = 1, Budget.userId = 2, Budget.name = ''Rent'',
                  Budget.amount = 30000, Budget.category = None, Budget.period = monthly,
                  Budget.startDate = ''2025-01-01'', Budget.endDate = ''2025-01-31'',
                  Budget.alertThreshold = 80, Budget.isActive = True,
                  Budget.createdAt = 20250101120000, Budget.updatedAt = 20250101120000\<rparr>),
      db_rent)"
  by (simp add: updateBudget_def run_update_def getBudgetById_def allowedFields_def Let_def
      db_rent_def budget_of_def)

text \<open>
  Claim C8. Whatever \<^verbatim>\<open>updateBudget\<close> is given and whether it fails or not, afterwards
  the table has the same rows at the same positions with the same \<^verbatim>\<open>id\<close>, \<^verbatim>\<open>userId\<close>
  and \<^verbatim>\<open>createdAt\<close>; a column whose key is not among the update's keys is unchanged; a
  row that does not match \<open>(budgetId, userId)\<close> is unchanged altogether; the expenses are
  unchanged; and entries with a key outside the allowed list, \<^verbatim>\<open>id\<close> and \<^verbatim>\<open>userId\<close>
  among them, make no difference to the outcome.
\<close>

theorem updateBudget_frame:
  assumes "updateBudget db now bid uid updates = (r, db')" and "i < length (budgets db)"
  shows "length (budgets db') = length (budgets db) \<and>
         expenses db' = expenses db \<and>
         Budget.id (budgets db' ! i) = Budget.id (budgets db ! i) \<and>
         Budget.userId (budgets db' ! i) = Budget.userId (budgets db ! i) \<and>
         Budget.createdAt (budgets db' ! i) = Budget.createdAt (budgets db ! i) \<and>
         (''name'' \<notin> key ` set updates \<longrightarrow>
            Budget.name (budgets db' ! i) = Budget.name (budgets db ! i)) \<and>
         (''amount'' \<notin> key ` set updates \<longrightarrow>
            Budget.amount (budgets db' ! i) = Budget.amount (budgets db ! i)) \<and>
         (''category'' \<notin> key ` set updates \<longrightarrow>
            Budget.category (budgets db' ! i) = Budget.category (budgets db ! i)) \<and>
         (''period'' \<notin> key ` set updates \<longrightarrow>
            Budget.period (budgets db' ! i) = Budget.period (budgets db ! i)) \<and>
         (''startDate'' \<notin> key ` set updates \<longrightarrow>
            Budget.startDate (budgets db' ! i) = Budget.startDate (budgets db ! i)) \<and>
         (''endDate'' \<notin> key ` set updates \<longrightarrow>
            Budget.endDate (budgets db' ! i) = Budget.endDate (budgets db ! i)) \<and>
         (''alertThreshold'' \<notin> key ` set updates \<longrightarrow>
            Budget.alertThreshold (budgets db' ! i) = Budget.alertThreshold (budgets db ! i)) \<and>
         (''isActive'' \<notin> key ` set updates \<longrightarrow>
            Budget.isActive (budgets db' ! i) = Budget.isActive (budgets db ! i)) \<and>
         (\<not> (Budget.id (budgets db ! i) = bid \<and> Budget.userId (budgets db ! i) = uid) \<longrightarrow>
            budgets db' ! i = budgets db ! i) \<and>
         updateBudget db now bid uid (filter (\<lambda>e. key e \<in> set allowedFields) updates) = (r, db')"
proof (cases "filter (\<lambda>e. key e \<in> set allowedFields) updates = []")
  case True
  then have "db' = db" and "r = Inl (Error ''No valid fields to update'')"
    using assms(1) by (auto simp add: updateBudget_cases)
  then show ?thesis
    using True by (simp add: updateBudget_cases)
next
  case False
  let ?sets = "filter (\<lambda>e. key e \<in> set allowedFields) updates"
  have db': "db' = run_update db now ?sets bid uid"
    and r: "r = Inr (getBudgetById (run_update db now ?sets bid uid) bid)"
    using assms(1) False by (auto simp add: updateBudget_cases)
  have len: "length (budgets db') = length (budgets db)" and ex: "expenses db' = expenses db"
    by (simp_all add: db' run_update_def)
  have row: "budgets db' ! i =
      (if Budget.id (budgets db ! i) = bid \<and> Budget.userId (budgets db ! i) = uid
       then (fold assign ?sets (budgets db ! i))\<lparr>Budget.updatedAt := now\<rparr>
       else budgets db ! i)"
    unfolding db' using assms(2) by (rule run_update_nth)
  have allowed: "\<forall>e \<in> set ?sets. key e \<in> set allowedFields"
    by simp
  have ident: "Budget.id (budgets db' ! i) = Budget.id (budgets db ! i) \<and>
      Budget.userId (budgets db' ! i) = Budget.userId (budgets db ! i) \<and>
      Budget.createdAt (budgets db' ! i) = Budget.createdAt (budgets db ! i)"
    using fold_assign_keeps_identity [OF allowed, of "budgets db ! i"] by (simp add: row)
  have cols: "(''name'' \<notin> key ` set updates \<longrightarrow>
            Budget.name (budgets db' ! i) = Budget.name (budgets db ! i)) \<and>
         (''amount'' \<notin> key ` set updates \<longrightarrow>
            Budget.amount (budgets db' ! i) = Budget.amount (budgets db ! i)) \<and>
         (''category'' \<notin> key ` set updates \<longrightarrow>
            Budget.category (budgets db' ! i) = Budget.category (budgets db ! i)) \<and>
         (''period'' \<notin> key ` set updates \<longrightarrow>
            Budget.period (budgets db' ! i) = Budget.period (budgets db ! i)) \<and>
         (''startDate'' \<notin> key ` set updates \<longrightarrow>
            Budget.startDate (budgets db' ! i) = Budget.startDate (budgets db ! i)) \<and>
         (''endDate'' \<notin> key ` set updates \<longrightarrow>
            Budget.endDate (budgets db' ! i) = Budget.endDate (budgets db ! i)) \<and>
         (''alertThreshold'' \<notin> key ` set updates \<longrightarrow>
            Budget.alertThreshold (budgets db' ! i) = Budget.alertThreshold (budgets db ! i)) \<and>
         (''isActive'' \<notin> key ` set updates \<longrightarrow>
            Budget.isActive (budgets db' ! i) = Budget.isActive (budgets db ! i))"
    by (simp add: row fold_assign_filtered)
  have other: "\<not> (Budget.id (budgets db ! i) = bid \<and> Budget.userId (budgets db ! i) = uid) \<longrightarrow>
      budgets db' ! i = budgets db ! i"
    by (simp add: row)
  have same: "updateBudget db now bid uid ?sets = (r, db')"
    using False by (simp add: updateBudget_cases db' r)
  from len ex ident cols other same show ?thesis by blast
qed

text \<open>
  User 2 renames budget 1 of the example and tries to hand it to user 9 and to give it
  id 5: the name and the modification time change, nothing else does.
\<close>

theorem updateBudget_frame_witness:
  "updateBudget db_rent 20250201000000 1 2 [E_userId 9, E_name ''Flat'', E_id 5] =
     (Inr (Some ((budget_of 1 2 ''Flat'' 30000 None 80 True 20250101120000)
                   \<lparr>Budget.updatedAt := 20250201000000\<rparr>)),
      db_rent\<lparr>budgets := [(budget_of 1 2 ''Flat'' 30000 None 80 True 20250101120000)
                            \<lparr>Budget.updatedAt := 20250201000000\<rparr>]\<rparr>) \<and>
   0 < length (budgets db_rent) \<and>
   ''amount'' \<notin> key ` set [E_userId 9, E_name ''Flat'', E_id 5] \<and>
   Budget.amount (budgets (db_rent\<lparr>budgets :=
       [(budget_of 1 2 ''Flat'' 30000 None 80 True 20250101120000)
          \<lparr>Budget.updatedAt := 20250201000000\<rparr>]\<rparr>) ! 0) = Budget.amount (budgets db_rent ! 0) \<and>
   Budget.userId (budgets (db_rent\<lparr>budgets :=
       [(budget_of 1 2 ''Flat'' 30000 None 80 True 20250101120000)
          \<lparr>Budget.updatedAt := 20250201000000\<rparr>]\<rparr>) ! 0) = 2"
proof -
  have run: "updateBudget db_rent 20250201000000 1 2 [E_userId 9, E_name ''Flat'', E_id 5] =
     (Inr (Some ((budget_of 1 2 ''Flat'' 30000 None 80 True 20250101120000)
                   \<lparr>Budget.updatedAt := 20250201000000\<rparr>)),
      db_rent\<lparr>budgets := [(budget_of 1 2 ''Flat'' 30000 None 80 True 20250101120000)
                            \<lparr>Budget.updatedAt := 20250201000000\<rparr>]\<rparr>)"
    by (simp add: updateBudget_def run_update_def getBudgetById_def allowedFields_def Let_def
        db_rent_def budget_of_def)
  have len: "0 < length (budgets db_rent)"
    by (simp add: db_rent_def)
  have notin: "''amount'' \<notin> key ` set [E_userId 9, E_name ''Flat'', E_id 5]"
    by simp
  from updateBudget_frame [OF run len] notin
  have "Budget.amount (budgets (db_rent\<lparr>budgets :=
       [(budget_of 1 2 ''Flat'' 30000 None 80 True 20250101120000)
          \<lparr>Budget.updatedAt := 20250201000000\<rparr>]\<rparr>) ! 0) = Budget.amount (budgets db_rent ! 0)"
    by blast
  moreover from updateBudget_frame [OF run len]
  have "Budget.userId (budgets (db_rent\<lparr>budgets :=
       [(budget_of 1 2 ''Flat'' 30000 None 80 True 20250101120000)
          \<lparr>Budget.updatedAt := 20250201000000\<rparr>]\<rparr>) ! 0) = Budget.userId (budgets db_rent ! 0)"
    by blast
  then have "Budget.userId (budgets (db_rent\<lparr>budgets :=
       [(budget_of 1 2 ''Flat'' 30000 None 80 True 20250101120000)
          \<lparr>Budget.updatedAt := 20250201000000\<rparr>]\<rparr>) ! 0) = 2"
    by (simp add: db_rent_def budget_of_def)
  ultimately show ?thesis
    using run len notin by blast
qed

subsection \<open>Deleting a budget\<close>

lemma at_most_one_match:
  "distinct (map Budget.id bs) \<Longrightarrow>
   length (filter (\<lambda>b. Budget.id b = bid \<and> Budget.userId b = uid) bs) \<le> 1"
proof (induction bs)
  case Nil
  then show ?case by simp
next
  case (Cons b bs)
  show ?case
  proof (cases "Budget.id b = bid")
    case True
    with Cons.prems have "bid \<notin> Budget.id ` set bs" by simp
    then have "\<forall>c \<in> set bs. Budget.id c \<noteq> bid" by blast
    then have "filter (\<lambda>b. Budget.id b = bid \<and> Budget.userId b = uid) bs = []"
      by (simp add: filter_empty_conv)
    then show ?thesis by simp
  next
    case False
    with Cons show ?thesis by simp
  qed
qed

text \<open>
  Claim C9. \<^verbatim>\<open>deleteBudget\<close> never fails, whether a row matches \<open>(budgetId, userId)\<close> or
  not; afterwards no row matches, the rows that did not match are all there, unchanged
  and in order, and the expenses are unchanged; with no matching row the database is
  unchanged; with ids unique, as the primary key makes them, at most one row is gone;
  and a second delete changes nothing more.
\<close>

theorem deleteBudget_scoped:
  "fst (deleteBudget db bid uid) = Inr () \<and>
   expenses (snd (deleteBudget db bid uid)) = expenses db \<and>
   filter (\<lambda>b. Budget.id b = bid \<and> Budget.userId b = uid)
     (budgets (snd (deleteBudget db bid uid))) = [] \<and>
   filter (\<lambda>b. \<not> (Budget.id b = bid \<and> Budget.userId b = uid))
     (budgets (snd (deleteBudget db bid uid))) =
   filter (\<lambda>b. \<not> (Budget.id b = bid \<and> Budget.userId b = uid)) (budgets db) \<and>
   (filter (\<lambda>b. Budget.id b = bid \<and> Budget.userId b = uid) (budgets db) = [] \<longrightarrow>
      snd (deleteBudget db bid uid) = db) \<and>
   (distinct (map Budget.id (budgets db)) \<longrightarrow>
      length (budgets db) \<le> Suc (length (budgets (snd (deleteBudget db bid uid))))) \<and>
   deleteBudget (snd (deleteBudget db bid uid)) bid uid = deleteBudget db bid uid"
proof -
  let ?m = "\<lambda>b. Budget.id b = bid \<and> Budget.userId b = uid"
  have bs: "budgets (snd (deleteBudget db bid uid)) = filter (\<lambda>b. \<not> ?m b) (budgets db)"
    by (simp add: deleteBudget_def)
  have c1: "fst (deleteBudget db bid uid) = Inr ()"
    and c2: "expenses (snd (deleteBudget db bid uid)) = expenses db"
    by (simp_all add: deleteBudget_def)
  have c3: "filter ?m (budgets (snd (deleteBudget db bid uid))) = []"
    unfolding bs by (simp add: filter_empty_conv)
  have c4: "filter (\<lambda>b. \<not> ?m b) (budgets (snd (deleteBudget db bid uid))) =
      filter (\<lambda>b. \<not> ?m b) (budgets db)"
    unfolding bs by simp
  have c5: "snd (deleteBudget db bid uid) = db" if "filter ?m (budgets db) = []"
  proof -
    from that have "\<forall>b \<in> set (budgets db). \<not> ?m b"
      by (simp add: filter_empty_conv)
    then have "filter (\<lambda>b. \<not> ?m b) (budgets db) = budgets db"
      by (simp add: filter_id_conv)
    then show ?thesis
      by (simp add: deleteBudget_def)
  qed
  have c6: "length (budgets db) \<le> Suc (length (budgets (snd (deleteBudget db bid uid))))"
    if "distinct (map Budget.id (budgets db))"
  proof -
    have "length (budgets db) =
        length (filter ?m (budgets db)) + length (filter (\<lambda>b. \<not> ?m b) (budgets db))"
      by (rule sum_length_filter_compl [symmetric])
    moreover have "length (filter ?m (budgets db)) \<le> 1"
      using that by (rule at_most_one_match)
    ultimately show ?thesis
      unfolding bs by linarith
  qed
  have c7: "deleteBudget (snd (deleteBudget db bid uid)) bid uid = deleteBudget db bid uid"
    by (simp add: deleteBudget_def)
  from c1 c2 c3 c4 c5 c6 c7 show ?thesis by blast
qed

text \<open>
  In the portfolio example user 7 deletes budget 3: that row goes. User 2 deleting the
  same id changes nothing.
\<close>

theorem deleteBudget_scoped_witness:
  "distinct (map Budget.id (budgets db_portfolio)) \<and>
   length (budgets db_portfolio) = 5 \<and>
   map Budget.id (budgets (snd (deleteBudget db_portfolio 3 7))) = [1, 2, 4, 5] \<and>
   length (budgets db_portfolio) \<le> Suc (length (budgets (snd (deleteBudget db_portfolio 3 7)))) \<and>
   filter (\<lambda>b. Budget.id b = 3 \<and> Budget.userId b = 2) (budgets db_portfolio) = [] \<and>
   snd (deleteBudget db_portfolio 3 2) = db_portfolio \<and>
   fst (deleteBudget db_portfolio 3 2) = Inr ()"
proof -
  have d: "distinct (map Budget.id (budgets db_portfolio))"
    by (simp add: db_portfolio_def budget_of_def)
  have none: "filter (\<lambda>b. Budget.id b = 3 \<and> Budget.userId b = 2) (budgets db_portfolio) = []"
    by (simp add: db_portfolio_def budget_of_def)
  have "length (budgets db_portfolio) \<le> Suc (length (budgets (snd (deleteBudget db_portfolio 3 7))))"
    using deleteBudget_scoped [of db_portfolio 3 7] d by blast
  moreover have "snd (deleteBudget db_portfolio 3 2) = db_portfolio"
    "fst (deleteBudget db_portfolio 3 2) = Inr ()"
    using deleteBudget_scoped [of db_portfolio 3 2] none by blast+
  moreover have "length (budgets db_portfolio) = 5"
    "map Budget.id (budgets (snd (deleteBudget db_portfolio 3 7))) = [1, 2, 4, 5]"
    by (simp_all add: deleteBudget_def db_portfolio_def budget_of_def)
  ultimately show ?thesis
    using d none by blast
qed

end
